theory Spec2Isabelle
  imports Main
begin

section \<open>The SQLite ownership-directive bridge of CSQLite/shim.h\<close>

text \<open>
  The header \<^verbatim>\<open>src/CSQLite/shim.h\<close> holds one function:
  \<^verbatim>\<open>
  // Bridge SQLITE_TRANSIENT -- Swift cannot import C macro-based function pointer constants
  static inline sqlite3_destructor_type csqlite_TRANSIENT(void) {
      return SQLITE_TRANSIENT;
  }
  \<close>
  The type \<^verbatim>\<open>sqlite3_destructor_type\<close> and the macro \<^verbatim>\<open>SQLITE_TRANSIENT\<close> come
  from the engine's header \<^verbatim>\<open>sqlite3.h\<close>, which the sources only include.
\<close>

subsection \<open>What a call of a C function can do\<close>

text \<open>
  A C function of no arguments is run in a program state \<open>'s\<close> (everything a caller
  can observe: memory, open files, the engine's connections). The call either returns a
  value and leaves a state behind, or it fails (a trap, an abort), or it never returns.
  The state type is a parameter: a function that is defined for every \<open>'s\<close> cannot
  depend on anything the state holds.
\<close>

datatype ('a, 's) outcome = Returns 'a 's | Fails | Diverges

primrec returned :: "('a, 's) outcome \<Rightarrow> 'a option" where
  "returned (Returns v s) = Some v"
| "returned Fails = None"
| "returned Diverges = None"

primrec state_after :: "('a, 's) outcome \<Rightarrow> 's option" where
  "state_after (Returns v s) = Some s"
| "state_after Fails = None"
| "state_after Diverges = None"

subsection \<open>The engine's declarations\<close>

text \<open>
  Modelled from the spec: the type \<^verbatim>\<open>sqlite3_destructor_type\<close> is declared in
  \<^verbatim>\<open>sqlite3.h\<close>, which is not among the sources. Section 3 of the spec gives the
  values the engine's binding operation accepts in this position, the ownership
  directive, as a tagged value with three variants: \<open>Borrow\<close> (the null destructor),
  \<open>OwnedCleanup callback\<close> (a real destructor function, here of any type \<open>'f\<close>) and
  \<open>CopyNow\<close> (the transient sentinel).
\<close>

datatype 'f OwnershipDirective = Borrow | OwnedCleanup 'f | CopyNow

type_synonym 'f sqlite3_destructor_type = "'f OwnershipDirective"

text \<open>
  Modelled from the spec: the macro \<^verbatim>\<open>SQLITE_TRANSIENT\<close> is defined in
  \<^verbatim>\<open>sqlite3.h\<close>, which is not among the sources. The spec (sections 1, 3 and 4.1)
  names it the process-wide \<open>CopyNow\<close> sentinel, of the type the binding operation
  expects for its ownership directive.
\<close>

definition SQLITE_TRANSIENT :: "'f sqlite3_destructor_type" where
  "SQLITE_TRANSIENT = CopyNow"

subsection \<open>The accessor\<close>

text \<open>
  \<^verbatim>\<open>csqlite_TRANSIENT(void)\<close>: no parameter, one statement,
  \<^verbatim>\<open>return SQLITE_TRANSIENT;\<close>. The body reads no variable and writes none, calls
  nothing and has no loop, so the call returns the macro's value in the state it
  started in. The spec calls this operation \<open>get_copy_now_directive()\<close>.
\<close>

definition csqlite_TRANSIENT :: "'s \<Rightarrow> ('f sqlite3_destructor_type, 's) outcome" where
  "csqlite_TRANSIENT s = Returns SQLITE_TRANSIENT s"

section \<open>Properties of the accessor\<close>

text \<open>
  C1. The accessor returns exactly the engine's transient sentinel
  \<^verbatim>\<open>SQLITE_TRANSIENT\<close>, and what it returns has the type
  \<^verbatim>\<open>sqlite3_destructor_type\<close>, the type of the ownership-directive argument of the
  engine's binding operation. The type is part of the statement: both sides of the
  equation are read at \<open>'f sqlite3_destructor_type option\<close>.
\<close>

theorem csqlite_TRANSIENT_returns_sentinel:
  "returned (csqlite_TRANSIENT s) = Some (SQLITE_TRANSIENT :: 'f sqlite3_destructor_type)"
  by (simp add: csqlite_TRANSIENT_def)

text \<open>
  C2. Any two calls of the accessor, from any two program states (so in any order,
  whatever ran between them), return one and the same value.
\<close>

theorem csqlite_TRANSIENT_same_value_every_call:
  "\<exists>v. returned (csqlite_TRANSIENT s1) = Some v \<and> returned (csqlite_TRANSIENT s2) = Some v"
  by (simp add: csqlite_TRANSIENT_def)

text \<open>
  C3. The accessor cannot fail: in every state the call returns a value, and the
  failing outcome is never its result. The definition has no branch that produces
  \<open>Fails\<close>, so there is no error to raise, wrap or suppress.
\<close>

theorem csqlite_TRANSIENT_cannot_fail:
  "csqlite_TRANSIENT s \<noteq> Fails \<and> (\<exists>v. returned (csqlite_TRANSIENT s) = Some v)"
  by (simp add: csqlite_TRANSIENT_def)

text \<open>
  C4. The call has no side effect: the state it leaves is the state it started in,
  whatever that state is, so all the call does is produce its return value.
\<close>

theorem csqlite_TRANSIENT_leaves_state:
  "state_after (csqlite_TRANSIENT s) = Some s"
  by (simp add: csqlite_TRANSIENT_def)

text \<open>
  C5. The directive the accessor returns is not the \<open>Borrow\<close> directive (the null
  destructor): every call returns a value, and that value differs from \<open>Borrow\<close>.
\<close>

theorem csqlite_TRANSIENT_not_Borrow:
  "\<exists>d. returned (csqlite_TRANSIENT s) = Some d \<and> d \<noteq> Borrow"
  by (simp add: csqlite_TRANSIENT_def SQLITE_TRANSIENT_def)

text \<open>
  C10. The accessor is total and every call terminates: from every state the call
  ends in \<open>Returns\<close>, never in \<open>Diverges\<close>. The definition takes nothing but the
  state and is not recursive.
\<close>

theorem csqlite_TRANSIENT_terminates:
  "csqlite_TRANSIENT s \<noteq> Diverges \<and> (\<exists>v s'. csqlite_TRANSIENT s = Returns v s')"
  by (simp add: csqlite_TRANSIENT_def)

end
